theory Spec2Isabelle
  imports Complex_Main
begin

section \<open>The driver of the equilibrium equation solver (main.cpp)\<close>

text \<open>
  The repository's driver reads a \<open>Problem\<close> from the command line, picks one solver class
  from the problem's dimensionality and method, runs it once, prints the moments and
  optionally stores the computed vector. The classes \<open>Problem\<close>, \<open>Result\<close>,
  \<open>AbstractSolver\<close> and its subclasses, the kernel classes and \<open>VectorHandler\<close> are
  declared in headers that main.cpp only includes; what main.cpp reads from them is kept as
  data here, and what it calls in them is a parameter of the model.

  The driver never computes on a \<open>double\<close>: values of that type are only handed from an
  accessor to \<open>printf\<close> or to \<open>storeVector\<close>. The type of doubles is therefore the type
  variable \<open>'d\<close> throughout. The \<open>int\<close> values are compared with constants or passed on,
  never added or multiplied, so they are HOL integers.
\<close>

subsection \<open>Data read from the headers\<close>

text \<open>
  Modelled from the spec: the status enumeration of \<open>Problem\<close> (problem.hpp is not part of
  the sources at hand). main.cpp names \<open>Problem::success\<close> and \<open>Problem::help\<close> and
  stores the status in an \<open>int\<close>; every other value is a failure of the initialisation.
\<close>

datatype status = success | "help" | failure int

text \<open>
  Modelled from the spec: the method enumeration of \<open>Problem\<close> (problem.hpp is not part of
  the sources at hand). main.cpp names three enumerators; \<open>unnamed_method\<close> stands for any
  other value that \<open>method()\<close> may return.
\<close>

datatype method_kind = nonlinear_neuman | linear_neuman | nystrom | unnamed_method int

text \<open>
  The kernel object behind \<open>problem.getKernels()\<close>. main.cpp looks at it only through five
  \<open>dynamic_cast\<close>s, and through the getters of the class a successful cast gives. The
  class hierarchy itself is in kernels.hpp, so an object is described by what each of the
  five casts returns: \<open>None\<close> for the null pointer, otherwise the values of the getters
  that main.cpp calls, in the order of the calls.
\<close>

record 'd kernels =
  as_NormalKernels :: "('d \<times> 'd) option"
  as_KurticKernels :: "('d \<times> 'd \<times> 'd \<times> 'd) option"
  as_ExponentKernels :: "('d \<times> 'd) option"
  as_RoughgardenKernels :: "('d \<times> 'd \<times> 'd \<times> 'd) option"
  as_ExponentPolynomialKernels :: "('d \<times> 'd \<times> 'd \<times> 'd) option"

text \<open>
  A \<open>Problem\<close> after \<open>init\<close>: one field for each accessor that main.cpp calls, holding
  what the accessor returns. The accessors \<open>R()\<close>, \<open>b()\<close>, \<open>s()\<close> and \<open>d()\<close> are the
  fields \<open>prob_R\<close>, \<open>prob_b\<close>, \<open>prob_s\<close> and \<open>prob_d\<close>, and \<open>method()\<close> is
  \<open>prob_method\<close>; \<open>path()\<close> is a C string or the null pointer. The spelling
  \<open>accurancy\<close> is the source's.
\<close>

record 'd problem =
  getKernels :: "'d kernels"
  prob_method :: method_kind
  prob_R :: 'd
  nodes :: int
  iters :: int
  prob_b :: 'd
  prob_s :: 'd
  prob_d :: 'd
  alpha :: 'd
  beta :: 'd
  gamma :: 'd
  accurancy :: int
  step :: 'd
  origin :: 'd
  dimension :: int
  path :: "string option"

text \<open>A \<open>Result\<close>: the public members \<open>C\<close> and \<open>N\<close> that main.cpp reads.\<close>

record 'd result =
  res_C :: "'d list"
  res_N :: 'd

text \<open>The four solver classes that main.cpp instantiates.\<close>

datatype solver = LinearSolver | NystromSolver | SolverFFT | SolverDHTNaive

subsection \<open>Effects\<close>

text \<open>
  What main.cpp does to the outside is a sequence of events: a call of \<open>printf\<close> with its
  format string and its variadic arguments, the construction and destruction of a solver,
  the call of \<open>solve\<close>, and the call of \<open>VectorHandler::storeVector\<close> with its six
  arguments.
\<close>

datatype 'd arg = IntArg int | DblArg 'd | StrArg string

datatype 'd event =
    Printf string "'d arg list"
  | New solver
  | Solve solver "'d problem"
  | StoreVector "'d list" string int 'd 'd int
  | Delete solver

text \<open>
  Passing an uninitialised pointer to \<open>printf\<close> is undefined behaviour; the model stops
  there with a fault instead of a trace.
\<close>

datatype fault = Uninitialized_read

text \<open>The two preprocessor switches of main.cpp.\<close>

record build =
  DEBUG :: bool
  ASCETIC :: bool

text \<open>
  The code that main.cpp calls and does not contain is a parameter of the model:
  \<open>init\<close> is \<open>Problem::init(argc, argv)\<close>, which returns the status and leaves the
  problem initialised; \<open>solve\<close> is the virtual \<open>AbstractSolver::solve\<close> of the solver
  classes; \<open>getC0\<close> is \<open>Result::getC0\<close>. A call is a function application: the model
  takes each call to return, and says nothing about how the value comes about. The
  theorems about \<open>main\<close> hold for every choice of the three.
\<close>

record 'd env =
  init :: "string list \<Rightarrow> status \<times> 'd problem"
  solve :: "solver \<Rightarrow> 'd problem \<Rightarrow> 'd result"
  getC0 :: "'d result \<Rightarrow> 'd"

subsection \<open>The format strings\<close>

definition REFERENCE_MESSAGE :: string where
  "REFERENCE_MESSAGE =
    ''EQUILIBRIUM EQUATION SOLVER\<newline>\<newline>'' @
    ''This program is used for solving an integral equation that appears\<newline>'' @
    ''in the Ulf Dieckmann and Richard Law's biological model of one species.\<newline>'' @
    ''This equation describes the second spatial moment in the equilibrium state.\<newline>'' @
    ''The program uses the second order closure of the third moment:\<newline>\<newline>'' @
    ''              1   C(x)C(y)    C(x)C(y-x)    C(y)C(y-x)\<newline>'' @
    ''    T(x, y) =---(A-------- + B---------- + G---------- - BN^3)\<newline>'' @
    ''             A+B     N            N             N\<newline>\<newline>'' @
    ''where A, B and G are alpha, beta and gamma parameters respectively.\<newline>'' @
    ''List of possible cmd arguments:\<newline>'' @
    ''-k*   - set kernel type, where * is one of the letters:\<newline>'' @
    ''    n - normal kernels\<newline>'' @
    ''    k - kurtic kernels where m(x) = w(x)\<newline>'' @
    ''    K - general kurtic kernels\<newline>'' @
    ''    e - exponential Danchencko's kernels\<newline>'' @
    ''    r - roughgarden kernels\<newline>'' @
    ''    p - exponent polynomial kernels\<newline>'' @
    ''    c - constant kernels\<newline>'' @
    ''    After kernel type you must write kernel parameters:\<newline>'' @
    ''      + birth and death kernel standard deviation for normal kernels\<newline>'' @
    ''      + s0 and s1 parameters for kurtic kernels\<newline>'' @
    ''      + s0m, s1m, s0w and s1w parameters for general kurtic kernels\<newline>'' @
    ''      + A and B parameters for Danchencko's kernels\<newline>'' @
    ''      + sm, gamma_m, sw and gamma_w parameters for roughgarden kernels\<newline>'' @
    ''      + am, bm, aw and bw parameters for exponent polynomial kernels\<newline>'' @
    ''      + birth and death radius for constatnt kernels\<newline>'' @
    ''-A - alpha parameter of second order closure\<newline>'' @
    ''-B - beta parameter of second order closure\<newline>'' @
    ''-G - gamma parameter of second order closure\<newline>'' @
    ''-m - equation solving method. Can be one of the following types:\<newline>'' @
    ''         neuman - Neuman method for nonlinear case (default value)\<newline>'' @
    ''         lneuman - Neuman method for linear case (LINEAR)\<newline>'' @
    ''         nystrom - Nystrom method (LINEAR)\<newline>'' @
    ''     Note that using method marked as LINEAR leads to ignoring\<newline>'' @
    ''     A, B and G parameters and using the asymmetric second order\<newline>'' @
    ''     closure (A = 1, B = G = 0). That makes equilibrium equation\<newline>'' @
    ''     linear one. Moreover LINEAR methods are used only in the 1D or 3D\<newline>'' @
    ''     case.\<newline>'' @
    ''-d - environmental death rating\<newline>'' @
    ''-b - species birth rating\<newline>'' @
    ''-s - species death rating\<newline>'' @
    ''-r - size of area (give 'n' to use autocomputed size)\<newline>'' @
    ''-D - dimensionality of space\<newline>'' @
    ''-i - iteration count\<newline>'' @
    ''-n - grid node count\<newline>'' @
    ''-p - path to store data (give 'n' to don't create a data file)\<newline>'' @
    ''-e - accuracy in decimal places\<newline>'' @
    ''-h - show this help\<newline>\<newline>'' @
    ''See more information about this model in the papers.''"

definition separator :: string where
  "separator = ''-------------------------------------\<newline>''"

definition guidance_format :: string where
  "guidance_format = ''\<newline>Run '' @ [CHR 0x22] @ ''%s -h'' @ [CHR 0x22] @ '' to get reference\<newline>''"

definition normal_format :: string where
  "normal_format = ''Normal kernels: sm = %.5lf, sw = %.5lf\<newline>''"

definition kurtic_format :: string where
  "kurtic_format =
    ''Kurtic kernels: sm0 = %.5lf, sm1 = %.5lf\<newline>'' @
    ''                sw0 = %.5lf, sw1 = %.5lf\<newline>''"

definition exponent_format :: string where
  "exponent_format = ''Exponent kernels: sm = %.5lf, sw = %.5lf\<newline>''"

definition roughgarden_format :: string where
  "roughgarden_format =
    ''Roughgarden kernels: sm = %.5lf, gamma_m = %.5lf\<newline>'' @
    ''                     sw = %.5lf, gamma_w = %.5lf\<newline>''"

definition exponent_polynomial_format :: string where
  "exponent_polynomial_format =
    ''Exponent polynomial kernels: sm = %.5lf, gamma_m = %.5lf\<newline>'' @
    ''                             sw = %.5lf, gamma_w = %.5lf\<newline>''"

definition fields_format :: string where
  "fields_format =
    ''R = %10.5lf\<newline>n_count = %d\<newline>i_count = %d\<newline>b = %10.5lf\<newline>'' @
    ''s = %10.5lf\<newline>d = %10.5lf\<newline>alpha = %10.5lf\<newline>beta = %10.5lf\<newline>'' @
    ''gamma = %10.5lf\<newline>accurancy = %d\<newline>'' @
    ''step = %10.5lf\<newline>dimension = %d\<newline>'' @
    ''method: %s\<newline>''"

definition path_format :: string where
  "path_format = ''path = '' @ [CHR 0x27] @ ''%s'' @ [CHR 0x27] @ ''\<newline>''"

definition ascetic_format :: string where
  "ascetic_format = ''%15.*lf\<newline>''"

definition moments_format :: string where
  "moments_format = ''First moment: %.*lf\<newline>C(0) = %.*lf\<newline>''"

subsection \<open>The diagnostic routine \<open>showArgs\<close> (compiled under \<open>DEBUG\<close>)\<close>

text \<open>
  Lines 68 to 117: the chain of \<open>dynamic_cast\<close>s. The first cast that does not return
  the null pointer decides what is printed; when all five return it, nothing is printed.
\<close>

definition kernel_report :: "'d kernels \<Rightarrow> 'd event list" where
  "kernel_report k =
    (case as_NormalKernels k of
       Some (sigmaM, sigmaW) \<Rightarrow> [Printf normal_format [DblArg sigmaM, DblArg sigmaW]]
     | None \<Rightarrow>
    (case as_KurticKernels k of
       Some (s0m, s1m, s0w, s1w) \<Rightarrow>
         [Printf kurtic_format [DblArg s0m, DblArg s1m, DblArg s0w, DblArg s1w]]
     | None \<Rightarrow>
    (case as_ExponentKernels k of
       Some (a, b) \<Rightarrow> [Printf exponent_format [DblArg a, DblArg b]]
     | None \<Rightarrow>
    (case as_RoughgardenKernels k of
       Some (sm, gm, sw, gw) \<Rightarrow>
         [Printf roughgarden_format [DblArg sm, DblArg gm, DblArg sw, DblArg gw]]
     | None \<Rightarrow>
    (case as_ExponentPolynomialKernels k of
       Some (am, bm, aw, bw) \<Rightarrow>
         [Printf exponent_polynomial_format [DblArg am, DblArg bm, DblArg aw, DblArg bw]]
     | None \<Rightarrow> [])))))"

text \<open>
  Lines 121 to 128: the local \<open>methodName\<close> is declared without an initialiser and
  assigned in three branches with no final \<open>else\<close>. \<open>None\<close> is the pointer left
  uninitialised.
\<close>

definition methodName :: "method_kind \<Rightarrow> string option" where
  "methodName m =
    (if m = nonlinear_neuman then Some ''neuman nonlinear''
     else if m = linear_neuman then Some ''neuman linear''
     else if m = nystrom then Some ''nystrom''
     else None)"

text \<open>Lines 130 to 149: the arguments of the second \<open>printf\<close>, before \<open>methodName\<close>.\<close>

definition field_args :: "'d problem \<Rightarrow> 'd arg list" where
  "field_args p =
    [DblArg (prob_R p), IntArg (nodes p), IntArg (iters p), DblArg (prob_b p),
     DblArg (prob_s p), DblArg (prob_d p), DblArg (alpha p), DblArg (beta p),
     DblArg (gamma p), IntArg (accurancy p), DblArg (step p), IntArg (dimension p)]"

definition showArgs :: "'d problem \<Rightarrow> fault + 'd event list" where
  "showArgs p =
    (case methodName (prob_method p) of
       None \<Rightarrow> Inl Uninitialized_read
     | Some name \<Rightarrow>
         Inr ([Printf separator []] @
              kernel_report (getKernels p) @
              [Printf fields_format (field_args p @ [StrArg name])] @
              (case path p of
                 None \<Rightarrow> []
               | Some file \<Rightarrow> [Printf path_format [StrArg file]]) @
              [Printf separator []]))"

subsection \<open>\<open>main\<close>\<close>

text \<open>
  Lines 178 to 189: the choice of the solver class, which reads \<open>equation.dimension()\<close>
  and \<open>equation.method()\<close> and nothing else.
\<close>

definition select_solver :: "int \<Rightarrow> method_kind \<Rightarrow> solver" where
  "select_solver dimen m =
    (if dimen = 1 \<or> dimen = 3 then
       (if m = linear_neuman then LinearSolver
        else if m = nystrom then NystromSolver
        else SolverFFT)
     else SolverDHTNaive)"

text \<open>Lines 192 to 203: the \<open>printf\<close> of the moments, in either build.\<close>

definition print_moments :: "build \<Rightarrow> 'd env \<Rightarrow> 'd problem \<Rightarrow> 'd result \<Rightarrow> 'd event" where
  "print_moments bld e equation answer =
    (if ASCETIC bld then
       Printf ascetic_format [IntArg (accurancy equation), DblArg (res_N answer)]
     else
       Printf moments_format
         [IntArg (accurancy equation), DblArg (res_N answer),
          IntArg (accurancy equation), DblArg (getC0 e answer)])"

text \<open>Lines 205 to 209: the vector is stored only when \<open>path()\<close> is not null.\<close>

definition store :: "'d problem \<Rightarrow> 'd result \<Rightarrow> 'd event list" where
  "store equation answer =
    (case path equation of
       None \<Rightarrow> []
     | Some file \<Rightarrow>
         [StoreVector (res_C answer) file (nodes equation) (step equation)
            (origin equation) (accurancy equation)])"

text \<open>
  \<open>main\<close> gets \<open>argv[0]\<close> and the other arguments, and returns the events in the order
  they happen together with the exit status, or the fault of \<open>showArgs\<close>. A hosted
  environment passes a program name, so \<open>argv[0]\<close> is a string.
\<close>

definition main :: "build \<Rightarrow> 'd env \<Rightarrow> string \<Rightarrow> string list \<Rightarrow> fault + ('d event list \<times> int)" where
  "main bld e argv0 args =
    (case init e (argv0 # args) of (status, equation) \<Rightarrow>
      if status \<noteq> success then
        (if status = help then Inr ([Printf REFERENCE_MESSAGE []], 0)
         else Inr ([Printf guidance_format [StrArg argv0]], 1))
      else
        (case (if DEBUG bld then showArgs equation else Inr []) of
           Inl f \<Rightarrow> Inl f
         | Inr shown \<Rightarrow>
             (let solver = select_solver (dimension equation) (prob_method equation);
                  answer = solve e solver equation
              in Inr (shown @
                      [New solver, Solve solver equation,
                       print_moments bld e equation answer] @
                      store equation answer @
                      [Delete solver], 0))))"

text \<open>Reading a trace.\<close>

definition constructed :: "'d event list \<Rightarrow> solver list" where
  "constructed tr = concat (map (\<lambda>ev. case ev of New sv \<Rightarrow> [sv] | _ \<Rightarrow> []) tr)"

definition solved :: "'d event list \<Rightarrow> (solver \<times> 'd problem) list" where
  "solved tr = concat (map (\<lambda>ev. case ev of Solve sv p \<Rightarrow> [(sv, p)] | _ \<Rightarrow> []) tr)"

definition stored :: "'d event list \<Rightarrow> 'd event list" where
  "stored tr = filter (\<lambda>ev. case ev of StoreVector c f n h o' a \<Rightarrow> True | _ \<Rightarrow> False) tr"

definition printed :: "'d event list \<Rightarrow> 'd event list" where
  "printed tr = filter (\<lambda>ev. case ev of Printf f as \<Rightarrow> True | _ \<Rightarrow> False) tr"

definition after_solve :: "'d event list \<Rightarrow> 'd event list" where
  "after_solve tr = drop 1 (dropWhile (\<lambda>ev. case ev of Solve sv p \<Rightarrow> False | _ \<Rightarrow> True) tr)"


definition only_prints :: "'d event list \<Rightarrow> bool" where
  "only_prints tr = list_all (\<lambda>ev. case ev of Printf f as \<Rightarrow> True | _ \<Rightarrow> False) tr"

subsection \<open>What \<open>printf\<close> makes of the formats of the moments\<close>



subsection \<open>A concrete run\<close>

text \<open>
  The scenario of the specification: one dimension, normal kernels with both standard
  deviations 1, b = 1, s = d = 0.1, the linear closure, R = 10, 50 nodes, 4 decimal places,
  the Nystrom method. The solver and \<open>getC0\<close> of this environment are stand-ins that
  return fixed numbers.
\<close>

definition example_kernels :: "real kernels" where
  "example_kernels =
    \<lparr>as_NormalKernels = Some (1, 1), as_KurticKernels = None, as_ExponentKernels = None,
     as_RoughgardenKernels = None, as_ExponentPolynomialKernels = None\<rparr>"


definition example_problem :: "real problem" where
  "example_problem =
    \<lparr>getKernels = example_kernels, prob_method = nystrom, prob_R = 10, nodes = 50, iters = 100,
     prob_b = 1, prob_s = 1 / 10, prob_d = 1 / 10, alpha = 1, beta = 0, gamma = 0,
     accurancy = 4, step = 1 / 5, origin = 0, dimension = 1, path = Some ''c.txt''\<rparr>"

definition example_answer :: "real result" where
  "example_answer = \<lparr>res_C = [7, 6, 5], res_N = 5\<rparr>"

definition example_env :: "real env" where
  "example_env =
    \<lparr>init = (\<lambda>argv.
        if argv = [''equilibrium'', ''-h''] then (help, example_problem)
        else if argv = [''equilibrium''] then (success, example_problem)
        else if argv = [''equilibrium'', ''-pn''] then (success, example_problem\<lparr>path := None\<rparr>)
        else if argv = [''equilibrium'', ''-D2''] then (success, example_problem\<lparr>dimension := 2\<rparr>)
        else if argv = [''equilibrium'', ''-e-1''] then
          (success, example_problem\<lparr>accurancy := - 1\<rparr>)
        else if argv = [''equilibrium'', ''-m?''] then
          (success, example_problem\<lparr>prob_method := unnamed_method 3\<rparr>)
        else (failure 2, example_problem)),
     solve = (\<lambda>sv p. example_answer),
     getC0 = (\<lambda>r. 7)\<rparr>"

definition release :: build where
  "release = \<lparr>DEBUG = False, ASCETIC = False\<rparr>"

definition ascetic :: build where
  "ascetic = \<lparr>DEBUG = False, ASCETIC = True\<rparr>"

definition debug :: build where
  "debug = \<lparr>DEBUG = True, ASCETIC = False\<rparr>"

section \<open>What \<open>main\<close> does\<close>

subsection \<open>The two outcomes of \<open>init\<close>\<close>

lemma REFERENCE_MESSAGE_plain: "CHR ''%'' \<notin> set REFERENCE_MESSAGE"
  by (simp add: REFERENCE_MESSAGE_def)

lemma main_failed:
  assumes "init e (argv0 # args) = (st, p)" and "st \<noteq> success"
  shows "main bld e argv0 args =
    (if st = help then Inr ([Printf REFERENCE_MESSAGE []], 0)
     else Inr ([Printf guidance_format [StrArg argv0]], 1))"
  using assms by (simp add: main_def)

lemma main_succeeded:
  assumes "init e (argv0 # args) = (success, p)"
  shows "main bld e argv0 args =
    (case (if DEBUG bld then showArgs p else Inr []) of
       Inl f \<Rightarrow> Inl f
     | Inr shown \<Rightarrow>
         Inr (shown @
              [New (select_solver (dimension p) (prob_method p)),
               Solve (select_solver (dimension p) (prob_method p)) p,
               print_moments bld e p (solve e (select_solver (dimension p) (prob_method p)) p)] @
              store p (solve e (select_solver (dimension p) (prob_method p)) p) @
              [Delete (select_solver (dimension p) (prob_method p))], 0))"
  using assms by (simp add: main_def Let_def split: sum.splits)

lemma showArgs_only_prints: "showArgs p = Inr shown \<Longrightarrow> only_prints shown"
  by (auto simp: showArgs_def kernel_report_def only_prints_def split: option.splits)

lemma only_prints_read:
  assumes "only_prints shown"
  shows "constructed (shown @ tr) = constructed tr" and "solved (shown @ tr) = solved tr"
    and "stored (shown @ tr) = stored tr"
    and "after_solve (shown @ New sv' # Solve sv p # tr) = tr"
  using assms
  by (induction shown)
    (auto simp: only_prints_def constructed_def solved_def stored_def after_solve_def
      split: event.splits)

lemma read_event:
  "constructed [] = []" "solved [] = []" "stored ([] :: 'd event list) = []"
  "constructed (New sv # tr) = sv # constructed tr"
  "constructed (Solve sv p # tr) = constructed tr"
  "constructed (Delete sv # tr) = constructed tr"
  "solved (New sv # tr) = solved tr"
  "solved (Solve sv p # tr) = (sv, p) # solved tr"
  "solved (Delete sv # tr) = solved tr"
  "stored (New sv # tr) = stored tr"
  "stored (Solve sv p # tr) = stored tr"
  "stored (Delete sv # tr) = stored tr"
  "constructed (Printf f as # tr) = constructed tr"
  "solved (Printf f as # tr) = solved tr"
  "stored (Printf f as # tr) = stored tr"
  "constructed (StoreVector c file n h o' a # tr) = constructed tr"
  "solved (StoreVector c file n h o' a # tr) = solved tr"
  "stored (StoreVector c file n h o' a # tr) = StoreVector c file n h o' a # stored tr"
  by (simp_all add: constructed_def solved_def stored_def)

lemma store_read:
  "constructed (store p r @ tr) = constructed tr" "solved (store p r @ tr) = solved tr"
  "stored (store p r @ tr) = store p r @ stored tr"
  by (auto simp: store_def constructed_def solved_def stored_def split: option.splits)

lemma print_moments_read:
  "constructed (print_moments bld e p r # tr) = constructed tr"
  "solved (print_moments bld e p r # tr) = solved tr"
  "stored (print_moments bld e p r # tr) = stored tr"
  by (auto simp: print_moments_def constructed_def solved_def stored_def)

lemma main_trace:
  assumes "init e (argv0 # args) = (success, p)" and "main bld e argv0 args = Inr (tr, code)"
  shows "\<exists>shown. only_prints shown \<and> code = 0 \<and> tr = shown @
      [New (select_solver (dimension p) (prob_method p)),
       Solve (select_solver (dimension p) (prob_method p)) p,
       print_moments bld e p (solve e (select_solver (dimension p) (prob_method p)) p)] @
      store p (solve e (select_solver (dimension p) (prob_method p)) p) @
      [Delete (select_solver (dimension p) (prob_method p))]"
proof (cases "DEBUG bld")
  case True
  with assms main_succeeded [OF assms(1), of bld] obtain shown where s: "showArgs p = Inr shown"
    by (cases "showArgs p") auto
  show ?thesis
    using assms(2) True s main_succeeded [OF assms(1), of bld] showArgs_only_prints [OF s]
    by auto
next
  case False
  show ?thesis
    using assms(2) False main_succeeded [OF assms(1), of bld]
    by (auto simp: only_prints_def)
qed

lemma main_constructed:
  assumes "init e (argv0 # args) = (success, p)" and "main bld e argv0 args = Inr (tr, code)"
  shows "constructed tr = [select_solver (dimension p) (prob_method p)]"
proof -
  from main_trace [OF assms] obtain shown where "only_prints shown" and tr: "tr = shown @
      [New (select_solver (dimension p) (prob_method p)),
       Solve (select_solver (dimension p) (prob_method p)) p,
       print_moments bld e p (solve e (select_solver (dimension p) (prob_method p)) p)] @
      store p (solve e (select_solver (dimension p) (prob_method p)) p) @
      [Delete (select_solver (dimension p) (prob_method p))]"
    by blast
  then show ?thesis
    by (simp add: only_prints_read print_moments_read store_read read_event)
qed

lemma main_solved:
  assumes "init e (argv0 # args) = (success, p)" and "main bld e argv0 args = Inr (tr, code)"
  shows "solved tr = [(select_solver (dimension p) (prob_method p), p)]"
proof -
  from main_trace [OF assms] obtain shown where "only_prints shown" and tr: "tr = shown @
      [New (select_solver (dimension p) (prob_method p)),
       Solve (select_solver (dimension p) (prob_method p)) p,
       print_moments bld e p (solve e (select_solver (dimension p) (prob_method p)) p)] @
      store p (solve e (select_solver (dimension p) (prob_method p)) p) @
      [Delete (select_solver (dimension p) (prob_method p))]"
    by blast
  then show ?thesis
    by (simp add: only_prints_read print_moments_read store_read read_event)
qed

lemma main_stored:
  assumes "init e (argv0 # args) = (success, p)" and "main bld e argv0 args = Inr (tr, code)"
  shows "stored tr = store p (solve e (select_solver (dimension p) (prob_method p)) p)"
proof -
  from main_trace [OF assms] obtain shown where "only_prints shown" and tr: "tr = shown @
      [New (select_solver (dimension p) (prob_method p)),
       Solve (select_solver (dimension p) (prob_method p)) p,
       print_moments bld e p (solve e (select_solver (dimension p) (prob_method p)) p)] @
      store p (solve e (select_solver (dimension p) (prob_method p)) p) @
      [Delete (select_solver (dimension p) (prob_method p))]"
    by blast
  then show ?thesis
    by (simp add: only_prints_read print_moments_read store_read read_event)
qed

lemma main_after_solve:
  assumes "init e (argv0 # args) = (success, p)" and "main bld e argv0 args = Inr (tr, code)"
  shows "after_solve tr =
    print_moments bld e p (solve e (select_solver (dimension p) (prob_method p)) p) #
    store p (solve e (select_solver (dimension p) (prob_method p)) p) @
    [Delete (select_solver (dimension p) (prob_method p))]"
proof -
  from main_trace [OF assms] obtain shown where "only_prints shown" and tr: "tr = shown @
      [New (select_solver (dimension p) (prob_method p)),
       Solve (select_solver (dimension p) (prob_method p)) p,
       print_moments bld e p (solve e (select_solver (dimension p) (prob_method p)) p)] @
      store p (solve e (select_solver (dimension p) (prob_method p)) p) @
      [Delete (select_solver (dimension p) (prob_method p))]"
    by blast
  then have "only_prints shown" and "tr = shown @
      New (select_solver (dimension p) (prob_method p)) #
      Solve (select_solver (dimension p) (prob_method p)) p #
      (print_moments bld e p (solve e (select_solver (dimension p) (prob_method p)) p) #
       store p (solve e (select_solver (dimension p) (prob_method p)) p) @
       [Delete (select_solver (dimension p) (prob_method p))])"
    by simp_all
  then show ?thesis
    by (simp only: only_prints_read)
qed

lemma main_returns:
  assumes "init e (argv0 # args) = (success, p)" and "DEBUG bld \<longrightarrow> methodName (prob_method p) \<noteq> None"
  shows "\<exists>tr. main bld e argv0 args = Inr (tr, 0)"
  using assms main_succeeded [OF assms(1), of bld]
  by (auto simp: showArgs_def split: option.splits)

lemma main_printed_after_solve:
  assumes "init e (argv0 # args) = (success, p)" and "main bld e argv0 args = Inr (tr, code)"
  shows "printed (after_solve tr) =
    [print_moments bld e p (solve e (select_solver (dimension p) (prob_method p)) p)]"
  unfolding main_after_solve [OF assms]
  by (simp add: printed_def print_moments_def store_def split: option.splits)

subsection \<open>The two formats of the moments, read by \<open>printf\<close>\<close>



subsection \<open>The concrete run, evaluated\<close>

lemma example_init:
  "init example_env [''equilibrium''] = (success, example_problem)"
  "init example_env [''equilibrium'', ''-h''] = (help, example_problem)"
  "init example_env [''equilibrium'', ''-x''] = (failure 2, example_problem)"
  "init example_env [''equilibrium'', ''-pn''] = (success, example_problem\<lparr>path := None\<rparr>)"
  "init example_env [''equilibrium'', ''-D2''] = (success, example_problem\<lparr>dimension := 2\<rparr>)"
  by (simp_all add: example_env_def)



lemma example_ascetic_plain:
  "main ascetic example_env ''equilibrium'' [] =
    Inr ([New NystromSolver, Solve NystromSolver example_problem,
          Printf ascetic_format [IntArg 4, DblArg 5],
          StoreVector [7, 6, 5] ''c.txt'' 50 (1 / 5) 0 4,
          Delete NystromSolver], 0)"
  by (simp add: main_def example_env_def example_problem_def example_answer_def ascetic_def
      select_solver_def print_moments_def store_def)

lemma example_init_more:
  "init example_env [''equilibrium'', ''-e-1''] = (success, example_problem\<lparr>accurancy := - 1\<rparr>)"
  "init example_env [''equilibrium'', ''-m?''] =
     (success, example_problem\<lparr>prob_method := unnamed_method 3\<rparr>)"
  by (simp_all add: example_env_def)


lemma example_fault:
  "main debug example_env ''equilibrium'' [''-m?''] = Inl Uninitialized_read"
  by (simp add: main_def example_env_def example_problem_def debug_def showArgs_def
      methodName_def)

lemma example_debug:
  "main debug example_env ''equilibrium'' [''-D2''] =
    Inr ([Printf separator [],
          Printf normal_format [DblArg 1, DblArg 1],
          Printf fields_format
            [DblArg 10, IntArg 50, IntArg 100, DblArg 1, DblArg (1 / 10), DblArg (1 / 10),
             DblArg 1, DblArg 0, DblArg 0, IntArg 4, DblArg (1 / 5), IntArg 2,
             StrArg ''nystrom''],
          Printf path_format [StrArg ''c.txt''],
          Printf separator [],
          New SolverDHTNaive, Solve SolverDHTNaive (example_problem\<lparr>dimension := 2\<rparr>),
          Printf moments_format [IntArg 4, DblArg 5, IntArg 4, DblArg 7],
          StoreVector [7, 6, 5] ''c.txt'' 50 (1 / 5) 0 4,
          Delete SolverDHTNaive], 0)"
  by (simp add: main_def example_env_def example_problem_def example_answer_def debug_def
      select_solver_def print_moments_def store_def showArgs_def methodName_def
      kernel_report_def example_kernels_def field_args_def)

subsection \<open>The choice of the solver\<close>



subsection \<open>When \<open>init\<close> does not succeed\<close>

text \<open>
  Claim C2. When \<open>init\<close> returns the help status, \<open>main\<close> prints the reference message
  and nothing else and exits with status 0. When \<open>init\<close> returns a status that is neither
  success nor help, \<open>main\<close> prints the line that tells the user to run the program, under
  the name it was called by, with \<open>-h\<close>, and exits with status 1. In both cases no solver is
  constructed and none is run. The reference message has no percent sign, so \<open>printf\<close>,
  which gets it as its format, prints it as it is.
\<close>

theorem main_init_failure:
  "(fst (init e (argv0 # args)) = help \<longrightarrow>
      main bld e argv0 args = Inr ([Printf REFERENCE_MESSAGE []], 0)) \<and>
   (fst (init e (argv0 # args)) \<noteq> success \<and> fst (init e (argv0 # args)) \<noteq> help \<longrightarrow>
      main bld e argv0 args = Inr ([Printf guidance_format [StrArg argv0]], 1)) \<and>
   (fst (init e (argv0 # args)) \<noteq> success \<longrightarrow>
      (\<exists>tr code. main bld e argv0 args = Inr (tr, code) \<and> constructed tr = [] \<and> solved tr = [])) \<and>
   CHR ''%'' \<notin> set REFERENCE_MESSAGE"
proof (cases "init e (argv0 # args)")
  case (Pair st p)
  show ?thesis
  proof (cases "st = success")
    case True
    with Pair REFERENCE_MESSAGE_plain show ?thesis by simp
  next
    case False
    from main_failed [OF Pair False, of bld] Pair False REFERENCE_MESSAGE_plain show ?thesis
      by (simp add: constructed_def solved_def)
  qed
qed

theorem main_init_failure_witness:
  "fst (init example_env (''equilibrium'' # [''-h''])) = help \<and>
   main debug example_env ''equilibrium'' [''-h''] = Inr ([Printf REFERENCE_MESSAGE []], 0) \<and>
   fst (init example_env (''equilibrium'' # [''-x''])) \<noteq> success \<and>
   fst (init example_env (''equilibrium'' # [''-x''])) \<noteq> help \<and>
   main debug example_env ''equilibrium'' [''-x''] =
     Inr ([Printf guidance_format [StrArg ''equilibrium'']], 1)"
  using main_init_failure [of example_env "''equilibrium''" "[''-h'']" debug]
    main_init_failure [of example_env "''equilibrium''" "[''-x'']" debug]
  by (simp add: example_init)

subsection \<open>When \<open>init\<close> succeeds\<close>

text \<open>
  Claim C3, as the program has it. The claim reads: whenever \<open>init\<close> returns success,
  \<open>main\<close> runs one solve, prints the moments and returns 0, unconditionally. In a build
  with \<open>DEBUG\<close>, \<open>init\<close> returns success with a method that has no name in \<open>showArgs\<close>,
  and \<open>main\<close> ends in the read of the uninitialised pointer, before any solver is made and
  with no exit status. In a build with \<open>ASCETIC\<close>, \<open>main\<close> returns 0 and has printed the
  first moment, 5, but not \<open>C(0)\<close>, 7.
\<close>

theorem success_does_not_always_exit:
  "init example_env (''equilibrium'' # [''-m?'']) =
     (success, example_problem\<lparr>prob_method := unnamed_method 3\<rparr>) \<and>
   main debug example_env ''equilibrium'' [''-m?''] = Inl Uninitialized_read \<and>
   init example_env (''equilibrium'' # []) = (success, example_problem) \<and>
   main ascetic example_env ''equilibrium'' [] =
     Inr ([New NystromSolver, Solve NystromSolver example_problem,
           Printf ascetic_format [IntArg 4, DblArg 5],
           StoreVector [7, 6, 5] ''c.txt'' 50 (1 / 5) 0 4,
           Delete NystromSolver], 0) \<and>
   res_N (solve example_env NystromSolver example_problem) = 5 \<and>
   getC0 example_env (solve example_env NystromSolver example_problem) = 7"
  using example_fault example_ascetic_plain
  by (simp add: example_init example_init_more) (simp add: example_env_def example_answer_def)

text \<open>
  Claim C3, amended. When \<open>init\<close> returns success and, in a build with \<open>DEBUG\<close>, the method
  is one of the three that \<open>showArgs\<close> names, \<open>main\<close> returns with exit status 0 after
  exactly one call of \<open>solve\<close>, on the initialised problem and by the solver chosen, and
  exactly one \<open>printf\<close> after it: of \<open>N\<close> and \<open>C(0)\<close>, each with \<open>accurancy()\<close> as the
  precision, or, in a build with \<open>ASCETIC\<close>, of \<open>N\<close> alone. This holds for every \<open>solve\<close>,
  so what the solver returns, converged or not, changes neither the exit status nor what is
  printed of the result.
\<close>

theorem main_success_exit:
  assumes "init e (argv0 # args) = (success, p)"
    and "DEBUG bld \<longrightarrow> methodName (prob_method p) \<noteq> None"
    and "answer = solve e (select_solver (dimension p) (prob_method p)) p"
  shows "\<exists>tr. main bld e argv0 args = Inr (tr, 0) \<and>
           solved tr = [(select_solver (dimension p) (prob_method p), p)] \<and>
           (\<not> ASCETIC bld \<longrightarrow>
              printed (after_solve tr) =
                [Printf moments_format
                   [IntArg (accurancy p), DblArg (res_N answer),
                    IntArg (accurancy p), DblArg (getC0 e answer)]]) \<and>
           (ASCETIC bld \<longrightarrow>
              printed (after_solve tr) =
                [Printf ascetic_format [IntArg (accurancy p), DblArg (res_N answer)]])"
proof -
  from main_returns [OF assms(1,2)] obtain tr where m: "main bld e argv0 args = Inr (tr, 0)"
    by blast
  have "printed (after_solve tr) = [print_moments bld e p answer]"
    unfolding assms(3) by (rule main_printed_after_solve [OF assms(1) m])
  with m main_solved [OF assms(1) m] show ?thesis
    by (auto simp: print_moments_def)
qed

theorem main_success_exit_witness:
  "init example_env (''equilibrium'' # [''-D2'']) = (success, example_problem\<lparr>dimension := 2\<rparr>) \<and>
   DEBUG debug \<and> \<not> ASCETIC debug \<and>
   methodName (prob_method (example_problem\<lparr>dimension := 2\<rparr>)) = Some ''nystrom'' \<and>
   (\<exists>tr. main debug example_env ''equilibrium'' [''-D2''] = Inr (tr, 0) \<and>
      solved tr = [(SolverDHTNaive, example_problem\<lparr>dimension := 2\<rparr>)] \<and>
      printed (after_solve tr) =
        [Printf moments_format [IntArg 4, DblArg 5, IntArg 4, DblArg 7]])"
proof -
  have i: "init example_env (''equilibrium'' # [''-D2'']) = (success, example_problem\<lparr>dimension := 2\<rparr>)"
    by (simp add: example_init)
  have n: "methodName (prob_method (example_problem\<lparr>dimension := 2\<rparr>)) = Some ''nystrom''"
    by (simp add: example_problem_def methodName_def)
  then have n': "DEBUG debug \<longrightarrow> methodName (prob_method (example_problem\<lparr>dimension := 2\<rparr>)) \<noteq> None"
    by simp
  have b: "DEBUG debug \<and> \<not> ASCETIC debug"
    by (simp add: debug_def)
  have s: "select_solver (dimension (example_problem\<lparr>dimension := 2\<rparr>))
      (prob_method (example_problem\<lparr>dimension := 2\<rparr>)) = SolverDHTNaive"
    by (simp add: select_solver_def)
  have v: "accurancy (example_problem\<lparr>dimension := 2\<rparr>) = 4"
    "res_N (solve example_env SolverDHTNaive (example_problem\<lparr>dimension := 2\<rparr>)) = 5"
    "getC0 example_env (solve example_env SolverDHTNaive (example_problem\<lparr>dimension := 2\<rparr>)) = 7"
    by (simp_all add: example_problem_def example_env_def example_answer_def)
  from main_success_exit [OF i n' refl] b
  have "\<exists>tr. main debug example_env ''equilibrium'' [''-D2''] = Inr (tr, 0) \<and>
      solved tr = [(SolverDHTNaive, example_problem\<lparr>dimension := 2\<rparr>)] \<and>
      printed (after_solve tr) =
        [Printf moments_format [IntArg 4, DblArg 5, IntArg 4, DblArg 7]]"
    unfolding s v by simp
  with i n b show ?thesis by blast
qed

subsection \<open>Storing the vector\<close>

text \<open>
  Claim C4. For a problem that \<open>init\<close> has initialised, \<open>main\<close> runs to its end and calls
  \<open>storeVector\<close> if and only if \<open>path()\<close> is not null. The one call then gets the \<open>C\<close>
  of the result of the run's one \<open>solve\<close>, the path, the node count, the step, the origin
  and the accuracy, in this order. With a null path the run has no call of \<open>storeVector\<close>
  at all. (In a build with \<open>DEBUG\<close> the run gets to its end when \<open>showArgs\<close> has a name
  for the method.)
\<close>

theorem main_stores_vector:
  assumes "init e (argv0 # args) = (success, p)"
    and "DEBUG bld \<longrightarrow> methodName (prob_method p) \<noteq> None"
  shows "\<exists>tr. main bld e argv0 args = Inr (tr, 0) \<and>
          stored tr =
            (case path p of
               None \<Rightarrow> []
             | Some file \<Rightarrow>
                 [StoreVector (res_C (solve e (select_solver (dimension p) (prob_method p)) p))
                    file (nodes p) (step p) (origin p) (accurancy p)]) \<and>
          (stored tr \<noteq> [] \<longleftrightarrow> path p \<noteq> None) \<and>
          solved tr = [(select_solver (dimension p) (prob_method p), p)]"
proof -
  from main_returns [OF assms] obtain tr where m: "main bld e argv0 args = Inr (tr, 0)"
    by blast
  have "stored tr = store p (solve e (select_solver (dimension p) (prob_method p)) p)"
    by (rule main_stored [OF assms(1) m])
  with m main_solved [OF assms(1) m] show ?thesis
    by (auto simp: store_def split: option.splits)
qed

theorem main_stores_vector_witness:
  "init example_env (''equilibrium'' # []) = (success, example_problem) \<and>
   \<not> DEBUG release \<and> path example_problem = Some ''c.txt'' \<and>
   (\<exists>tr. main release example_env ''equilibrium'' [] = Inr (tr, 0) \<and>
      stored tr = [StoreVector [7, 6, 5] ''c.txt'' 50 (1 / 5) 0 4]) \<and>
   init example_env (''equilibrium'' # [''-pn'']) = (success, example_problem\<lparr>path := None\<rparr>) \<and>
   \<not> DEBUG ascetic \<and> path (example_problem\<lparr>path := None\<rparr>) = None \<and>
   (\<exists>tr. main ascetic example_env ''equilibrium'' [''-pn''] = Inr (tr, 0) \<and> stored tr = [])"
proof -
  have i1: "init example_env (''equilibrium'' # []) = (success, example_problem)"
    and i2: "init example_env (''equilibrium'' # [''-pn'']) = (success, example_problem\<lparr>path := None\<rparr>)"
    by (simp_all add: example_init)
  have d: "\<not> DEBUG release" "\<not> DEBUG ascetic"
    by (simp_all add: release_def ascetic_def)
  have v: "path example_problem = Some ''c.txt''" "path (example_problem\<lparr>path := None\<rparr>) = None"
    "res_C (solve example_env (select_solver (dimension example_problem) (prob_method example_problem))
       example_problem) = [7, 6, 5]"
    "nodes example_problem = 50" "step example_problem = 1 / 5" "origin example_problem = 0"
    "accurancy example_problem = 4"
    by (simp_all add: example_problem_def example_env_def example_answer_def)
  from main_stores_vector [OF i1, of release] d(1)
  have 1: "\<exists>tr. main release example_env ''equilibrium'' [] = Inr (tr, 0) \<and>
      stored tr = [StoreVector [7, 6, 5] ''c.txt'' 50 (1 / 5) 0 4]"
    unfolding v by auto
  from main_stores_vector [OF i2, of ascetic] d(2)
  have 2: "\<exists>tr. main ascetic example_env ''equilibrium'' [''-pn''] = Inr (tr, 0) \<and> stored tr = []"
    unfolding v by auto
  from 1 2 i1 i2 d v(1,2) show ?thesis by blast
qed

subsection \<open>Printing the moments\<close>




subsection \<open>Runs that agree on the dimension and the method\<close>

text \<open>
  The choice of the solver reads the dimension and the method only: two runs whose problems
  agree on both construct the same solver class, whatever else differs in the problems and
  in the command lines.
\<close>

lemma same_dimension_and_method_same_solver:
  assumes "init e (argv1 # args1) = (success, p1)" and "main bld e argv1 args1 = Inr (tr1, code1)"
    and "init e (argv2 # args2) = (success, p2)" and "main bld e argv2 args2 = Inr (tr2, code2)"
    and "dimension p1 = dimension p2" and "prob_method p1 = prob_method p2"
  shows "constructed tr1 = constructed tr2"
  unfolding main_constructed [OF assms(1,2)] main_constructed [OF assms(3,4)]
  using assms(5,6) by simp

section \<open>What \<open>showArgs\<close> does\<close>

text \<open>
  Claim C9. \<open>methodName\<close> is assigned exactly when \<open>method()\<close> is \<open>nonlinear_neuman\<close>,
  \<open>linear_neuman\<close> or \<open>nystrom\<close>. For every other value \<open>showArgs\<close> hands the
  uninitialised pointer to \<open>printf\<close>; for the three values it completes, and the
  \<open>printf\<close> of the fields gets the name that was assigned.
\<close>

theorem showArgs_uninitialized_methodName:
  "(methodName m = None \<longleftrightarrow> m \<noteq> nonlinear_neuman \<and> m \<noteq> linear_neuman \<and> m \<noteq> nystrom) \<and>
   (showArgs p = Inl Uninitialized_read \<longleftrightarrow>
      prob_method p \<noteq> nonlinear_neuman \<and> prob_method p \<noteq> linear_neuman \<and>
      prob_method p \<noteq> nystrom) \<and>
   (prob_method p = nonlinear_neuman \<or> prob_method p = linear_neuman \<or> prob_method p = nystrom
      \<longrightarrow> (\<exists>name shown. methodName (prob_method p) = Some name \<and> showArgs p = Inr shown \<and>
            Printf fields_format (field_args p @ [StrArg name]) \<in> set shown))"
  by (auto simp: methodName_def showArgs_def)

theorem showArgs_uninitialized_methodName_witness:
  "methodName (unnamed_method 3) = None \<and>
   showArgs (example_problem\<lparr>prob_method := unnamed_method 3\<rparr>) = Inl Uninitialized_read \<and>
   prob_method example_problem = nystrom \<and>
   (\<exists>shown. showArgs example_problem = Inr shown)"
  using showArgs_uninitialized_methodName
    [of "unnamed_method 3" "example_problem\<lparr>prob_method := unnamed_method 3\<rparr>"]
    showArgs_uninitialized_methodName [of nystrom example_problem]
  by (auto simp: example_problem_def)



end
